theory Spec2Isabelle
  imports Complex_Main "HOL-Library.Sublist"
begin

section \<open>The functions of src/shared/util.js\<close>

subsection \<open>Face geometry\<close>

text \<open>
  JavaScript numbers are modelled as exact real numbers: the thresholds 0.15, 0.1, 0.4,
  0.7 and 1.3 are the decimal fractions the source writes, and the rounding of IEEE
  doubles is not part of the model. The width and height of a canvas are the DOM's
  unsigned integers, hence natural numbers here.

  A face as the detector delivers it: a bounding box in frame pixel coordinates and a list
  of keypoints. The source guards against a missing box in one function and not in the
  other, so the box is optional.
\<close>

record face_box =
  xMin :: real
  yMin :: real
  xMax :: real
  yMax :: real

type_synonym keypoint = "real \<times> real"

record face =
  box :: "face_box option"
  keypoints :: "keypoint list"

datatype js_error = TypeError string | Error string

text \<open>
  \<open>isFaceCentered\<close> reads \<open>face.box\<close> without a guard: on a face without a box the
  property access \<open>box.xMax\<close> throws.
\<close>

definition isFaceCentered :: "face \<Rightarrow> nat \<Rightarrow> nat \<Rightarrow> js_error + bool" where
  "isFaceCentered fc cw ch =
     (case box fc of
        None \<Rightarrow> Inl (TypeError ''box is undefined'')
      | Some b \<Rightarrow>
          let faceWidth = xMax b - xMin b;
              faceHeight = yMax b - yMin b;
              faceCenterX = xMin b + faceWidth / 2;
              faceCenterY = yMin b + faceHeight / 2;
              canvasCenterX = real cw / 2;
              canvasCenterY = real ch / 2;
              distanceX = \<bar>faceCenterX - canvasCenterX\<bar>;
              distanceY = \<bar>faceCenterY - canvasCenterY\<bar>;
              thresholdX = real cw * 0.15;
              thresholdY = real ch * 0.15
          in Inr (distanceX \<le> thresholdX \<and> distanceY \<le> thresholdY))"

subsection \<open>Strings\<close>

text \<open>
  Strings are byte lists. The two status marks the source appends are outside ASCII and
  stand here as their UTF-8 bytes (U+2705 and U+274C); a search for an ASCII pattern such
  as \<open>Centered\<close> finds the same occurrences in either encoding.
\<close>

definition check_mark :: string where
  "check_mark = [CHR 0xE2, CHR 0x9C, CHR 0x85]"

definition cross_mark :: string where
  "cross_mark = [CHR 0xE2, CHR 0x9D, CHR 0x8C]"

text \<open>\<open>String.prototype.includes\<close>: the pattern occurs as a contiguous piece.\<close>

fun str_includes :: "string \<Rightarrow> string \<Rightarrow> bool" where
  "str_includes [] pat = (pat = [])"
| "str_includes (c # cs) pat = (prefix pat (c # cs) \<or> str_includes cs pat)"

text \<open>\<open>Array.prototype.join\<close> on strings.\<close>

fun join :: "string \<Rightarrow> string list \<Rightarrow> string" where
  "join sep [] = []"
| "join sep [p] = p"
| "join sep (p # q # ps) = p @ sep @ join sep (q # ps)"

subsection \<open>Guidance composer\<close>

text \<open>
  \<open>getFacePositionGuidance\<close> returns the empty string for a missing face or a missing
  box. Each axis is an \<open>if\<close> / \<open>else if\<close> pair, kept in the source's order.
\<close>

definition getFacePositionGuidance :: "face option \<Rightarrow> nat \<Rightarrow> nat \<Rightarrow> string" where
  "getFacePositionGuidance fo cw ch =
     (case fo of
        None \<Rightarrow> ''''
      | Some fc \<Rightarrow>
          (case box fc of
             None \<Rightarrow> ''''
           | Some b \<Rightarrow>
               let faceWidth = xMax b - xMin b;
                   faceHeight = yMax b - yMin b;
                   faceCenterX = xMin b + faceWidth / 2;
                   faceCenterY = yMin b + faceHeight / 2;
                   canvasCenterX = real cw / 2;
                   canvasCenterY = real ch / 2;
                   distanceX = faceCenterX - canvasCenterX;
                   distanceY = faceCenterY - canvasCenterY;
                   horizontalGuidance =
                     (if distanceX < - real cw * 0.1 then ''Move right''
                      else if distanceX > real cw * 0.1 then ''Move left''
                      else '''');
                   verticalGuidance =
                     (if distanceY < - real ch * 0.1 then ''Move down''
                      else if distanceY > real ch * 0.1 then ''Move up''
                      else '''');
                   idealFaceWidth = real cw * 0.4;
                   distanceGuidance =
                     (if faceWidth < idealFaceWidth * 0.7 then ''Move closer to the camera''
                      else if faceWidth > idealFaceWidth * 1.3
                        then ''Move farther from the camera''
                      else '''');
                   guidanceParts =
                     filter (\<lambda>part. part \<noteq> '''')
                       [horizontalGuidance, verticalGuidance, distanceGuidance]
               in if length guidanceParts = 0
                  then ''Almost centered. Make small adjustments.''
                  else join ''. '' guidanceParts @ ''.''))"

subsection \<open>The page: module variables, window slots, document, calls made\<close>

text \<open>
  What the functions read from the platform during one call is an input (\<open>env\<close>): whether
  \<open>speechSynthesis\<close> is in \<open>window\<close> and, when it is, its \<open>speaking\<close> and \<open>paused\<close> flags, and
  the value of \<open>Date.now()\<close>. \<open>speak\<close> and \<open>resume\<close> sit in a \<open>try\<close> block; whether they would
  throw is part of the input too.
\<close>

record synth =
  speaking :: bool
  paused :: bool
  resumeThrows :: bool
  speakThrows :: bool

record utterance =
  spoken :: string
  volume :: real
  rate :: real
  pitch :: real
  lang :: string

text \<open>\<open>new SpeechSynthesisUtterance(message)\<close> with the platform's default attributes.\<close>

definition new_utterance :: "string \<Rightarrow> utterance" where
  "new_utterance message = \<lparr>spoken = message, volume = 1, rate = 1, pitch = 1, lang = ''''\<rparr>"

text \<open>
  The calls the code makes on the platform are kept, in order, in a log: the state the
  platform derives from them is the platform's. A captured image is the video frame
  (identified by a number) drawn mirrored on the photo canvas, and its data URL is
  determined by the canvas size and content.
\<close>

datatype canvas_content = Blank | MirroredFrame nat

datatype data_url = PngDataUrl nat nat canvas_content

datatype deferred = SaveThenDisable data_url string

datatype effect =
    ConsoleWarn string
  | ConsoleLog string
  | ConsoleError string
  | SynthCancel
  | SynthResume
  | SynthSpeak utterance
  | Focus string
  | StrokePath "(real \<times> real) list" bool
  | FillArc real real
  | Alert string
  | AlertError js_error
  | EstimateFaces nat
  | Dispose nat
  | DrawCtx
  | StatsPanelUpdate "real option"
  | ShutterSound
  | SetTimeout nat deferred
  | SavePhoto data_url string
  | ShowStartOver
  | SetupCamera
  | RequestAnimationFrame
  | CancelAnimationFrame

record status_element =
  textContent :: string
  color :: string

text \<open>
  \<open>lastAnnouncedStatus\<close> and \<open>lastAnnouncementTime\<close> are the module variables of util.js;
  \<open>currentFaceGuidance\<close> is the slot on \<open>window\<close> (undefined until the first write);
  \<open>faceStatus\<close> is the element with id face-status, if the document has one;
  \<open>takeAndDownloadButton\<close> says whether the element with id take-and-download exists. The
  canvas of the 2D context \<open>drawResults\<close> receives, and the context's style attributes, are
  part of the state.
\<close>

record page =
  lastAnnouncedStatus :: string
  lastAnnouncementTime :: int
  currentFaceGuidance :: "string option"
  faceStatus :: "status_element option"
  takeAndDownloadButton :: bool
  canvasWidth :: nat
  canvasHeight :: nat
  strokeStyle :: string
  fillStyle :: string
  lineWidth :: real
  effects :: "effect list"

record env =
  speechSynthesis :: "synth option"
  dateNow :: int

definition emit :: "effect \<Rightarrow> 'a page_scheme \<Rightarrow> 'a page_scheme" where
  "emit ev s = s\<lparr>effects := effects s @ [ev]\<rparr>"

subsection \<open>Announcement throttle\<close>

definition speakMessage :: "'e env_scheme \<Rightarrow> string \<Rightarrow> bool \<Rightarrow> 'a page_scheme \<Rightarrow> 'a page_scheme" where
  "speakMessage e message interrupt s =
     (case speechSynthesis e of
        None \<Rightarrow> emit (ConsoleWarn ''Speech synthesis not supported in this browser'') s
      | Some sy \<Rightarrow>
          let now = dateNow e in
          if message = lastAnnouncedStatus s \<and> now - lastAnnouncementTime s < 3000 then s
          else
            let s1 = (if interrupt \<and> speaking sy then emit SynthCancel s else s);
                u = (new_utterance message)
                      \<lparr>volume := 1, rate := 1.1, pitch := 1, lang := ''en-US''\<rparr>
            in if paused sy \<and> resumeThrows sy
               then emit (ConsoleError ''Error speaking message:'') s1
               else
                 let s2 = (if paused sy then emit SynthResume s1 else s1)
                 in if speakThrows sy
                    then emit (ConsoleError ''Error speaking message:'') s2
                    else
                      (emit (ConsoleLog (''Speaking message: '' @ message))
                         (emit (SynthSpeak u) s2))
                        \<lparr>lastAnnouncedStatus := message, lastAnnouncementTime := now\<rparr>)"

subsection \<open>Status text\<close>

definition centered_announcement :: string where
  "centered_announcement = ''Your face is centered. You can take a photo now.''"

definition not_centered_announcement :: string where
  "not_centered_announcement = ''Your face is not centered. Please adjust your position.''"

definition updateFaceStatus :: "'e env_scheme \<Rightarrow> bool \<Rightarrow> 'a page_scheme \<Rightarrow> 'a page_scheme" where
  "updateFaceStatus e isCentered s =
     (case faceStatus s of
        None \<Rightarrow> s
      | Some el \<Rightarrow>
          if isCentered then
            let statusMessage = ''Face position: Centered'';
                s1 = s\<lparr>faceStatus :=
                        Some (el\<lparr>textContent := statusMessage @ '' '' @ check_mark,
                                 color := ''green''\<rparr>)\<rparr>;
                s2 = speakMessage e centered_announcement True s1
            in if takeAndDownloadButton s2 then emit (Focus ''take-and-download'') s2 else s2
          else
            let statusMessage = ''Face position: Not centered - Please center your face'';
                s1 = s\<lparr>faceStatus :=
                        Some (el\<lparr>textContent := statusMessage @ '' '' @ cross_mark,
                                 color := ''red''\<rparr>)\<rparr>
            in (case currentFaceGuidance s1 of
                  None \<Rightarrow> speakMessage e not_centered_announcement False s1
                | Some g \<Rightarrow>
                    if g \<noteq> '''' then speakMessage e g False s1
                    else speakMessage e not_centered_announcement False s1))"

subsection \<open>Drawing a frame's faces\<close>

text \<open>
  A call either completes, throws, or awaits a promise that never settles (\<open>Hang\<close>, only
  in the asynchronous functions of index.js). The state is returned in every case: what was
  written before a throw stays written.
\<close>

datatype completion = Normal | Throw js_error | Hang

text \<open>
  \<open>RED\<close>, \<open>GREEN\<close> and \<open>NUM_KEYPOINTS\<close> are imported from params.js, which is not among the
  sources; they are parameters here.
\<close>

record params =
  RED :: string
  GREEN :: string
  NUM_KEYPOINTS :: nat

definition drawPath :: "(real \<times> real) list \<Rightarrow> bool \<Rightarrow> 'a page_scheme \<Rightarrow> 'a page_scheme" where
  "drawPath points closePath s = emit (StrokePath points closePath) s"

text \<open>
  The loop \<open>for (let i = 0; i < NUM_KEYPOINTS; i++)\<close> over the indices it visits: reading
  \<open>keypoints[i][0]\<close> beyond the end of the list throws.
\<close>

fun drawKeypoints ::
  "keypoint list \<Rightarrow> nat list \<Rightarrow> 'a page_scheme \<Rightarrow> completion \<times> 'a page_scheme" where
  "drawKeypoints kps [] s = (Normal, s)"
| "drawKeypoints kps (i # is) s =
     (if i < length kps
      then drawKeypoints kps is (emit (FillArc (fst (kps ! i)) (snd (kps ! i))) s)
      else (Throw (TypeError ''keypoints[i] is undefined''), s))"

text \<open>The body of the \<open>forEach\<close> callback of \<open>drawResults\<close>, for one face.\<close>

definition drawFace ::
  "params \<Rightarrow> 'e env_scheme \<Rightarrow> bool \<Rightarrow> bool \<Rightarrow> face \<Rightarrow> 'a page_scheme \<Rightarrow> completion \<times> 'a page_scheme" where
  "drawFace P e boundingBox showKeypoints fc s =
     (let kps = map (\<lambda>keypoint. (fst keypoint, snd keypoint)) (keypoints fc);
          r = (if boundingBox then
                 let s1 = s\<lparr>strokeStyle := RED P, lineWidth := 1\<rparr>
                 in (case box fc of
                       None \<Rightarrow> (Throw (TypeError ''box is undefined''), s1)
                     | Some b \<Rightarrow>
                         let s2 = drawPath
                                    [(xMin b, yMin b), (xMax b, yMin b),
                                     (xMax b, yMax b), (xMin b, yMax b)] True s1
                         in (case isFaceCentered fc (canvasWidth s2) (canvasHeight s2) of
                               Inl err \<Rightarrow> (Throw err, s2)
                             | Inr centered \<Rightarrow>
                                 let s3 = s2\<lparr>currentFaceGuidance :=
                                            Some (getFacePositionGuidance (Some fc)
                                                    (canvasWidth s2) (canvasHeight s2))\<rparr>
                                 in (Normal, updateFaceStatus e centered s3)))
               else (Normal, s))
      in (case r of
            (Normal, s') \<Rightarrow>
              if showKeypoints
              then drawKeypoints kps [0 ..< NUM_KEYPOINTS P] (s'\<lparr>fillStyle := GREEN P\<rparr>)
              else (Normal, s')
          | (c, s') \<Rightarrow> (c, s')))"

text \<open>\<open>faces.forEach\<close>: in list order, stopping at the first throw.\<close>

fun forEach ::
  "('b \<Rightarrow> 's \<Rightarrow> completion \<times> 's) \<Rightarrow> 'b list \<Rightarrow> 's \<Rightarrow> completion \<times> 's" where
  "forEach f [] s = (Normal, s)"
| "forEach f (v # vs) s =
     (case f v s of
        (Normal, s') \<Rightarrow> forEach f vs s'
      | (c, s') \<Rightarrow> (c, s'))"

definition drawResults ::
  "params \<Rightarrow> 'e env_scheme \<Rightarrow> face list \<Rightarrow> bool \<Rightarrow> bool \<Rightarrow> 'a page_scheme \<Rightarrow> completion \<times> 'a page_scheme" where
  "drawResults P e faces boundingBox showKeypoints s =
     (let s0 = (if length faces = 0 then
                  (case faceStatus s of
                     None \<Rightarrow> s
                   | Some el \<Rightarrow>
                       s\<lparr>faceStatus :=
                           Some (el\<lparr>textContent := ''Face position: No face detected'',
                                    color := ''orange''\<rparr>)\<rparr>)
                else s)
      in forEach (drawFace P e boundingBox showKeypoints) faces s0)"

section \<open>The functions of src/index.js\<close>

subsection \<open>Application state and platform readings\<close>

text \<open>
  The module variables of index.js (\<open>detector\<close>, \<open>stats\<close>, the inference timers, the pending
  animation-frame request), the fields of \<open>STATE\<close> the code reads, and the elements of the
  document the capture functions use. A detector is identified by a number. \<open>statsPanel\<close>
  says whether \<open>stats\<close> holds a panel: \<open>app()\<close> assigns it only in development mode, and
  otherwise it stays undefined.
\<close>

record photo_canvas =
  pcWidth :: nat
  pcHeight :: nat
  content :: canvas_content

record captured_photo =
  src :: "data_url option"
  display :: string

record download_button =
  disabled :: bool

record app = page +
  detector :: "nat option"
  statsPanel :: bool
  startInferenceTime :: real
  numInferences :: nat
  inferenceTimeSum :: real
  lastPanelUpdate :: real
  rafScheduled :: bool
  isTargetFPSChanged :: bool
  isSizeOptionChanged :: bool
  isModelChanged :: bool
  isFlagChanged :: bool
  isBackendChanged :: bool
  modelConfigBoundingBox :: bool
  modelConfigKeypoints :: bool
  photoCanvas :: "photo_canvas option"
  capturedPhoto :: "captured_photo option"
  downloadPhotoButton :: "download_button option"

text \<open>
  What one call reads from the platform beyond \<open>env\<close>: the two readings of
  \<open>performance.now()\<close> around the inference, the video's \<open>readyState\<close> and whether its
  \<open>loadeddata\<close> event arrives, the outcome of \<open>detector.estimateFaces\<close>, the video's size and
  current frame, whether an \<open>AudioContext\<close> exists, whether the user agent matches the mobile
  pattern, the ISO time stamp, and the outcomes of the asynchronous calls of
  \<open>checkGuiUpdate\<close> (\<open>Camera.setupCamera\<close>, \<open>setBackendAndEnvFlags\<close>, \<open>createDetector\<close>).
\<close>

datatype inference_outcome = Returns "face list" | Throws js_error | Pending

record platform = env +
  perfNowBegin :: real
  perfNowEnd :: real
  readyState :: nat
  loadeddataFires :: bool
  inference :: inference_outcome
  videoWidth :: nat
  videoHeight :: nat
  videoFrame :: nat
  audioContext :: bool
  mobileUserAgent :: bool
  isoString :: string
  setupCamera :: completion
  setBackend :: completion
  createDetector :: "js_error + nat"

subsection \<open>Inference statistics\<close>

definition beginEstimateFaceStats :: "platform \<Rightarrow> app \<Rightarrow> app" where
  "beginEstimateFaceStats e s = s\<lparr>startInferenceTime := perfNowBegin e\<rparr>"

text \<open>
  \<open>endEstimateFaceStats\<close> dereferences \<open>stats\<close> once a second has passed since the last panel
  update; with \<open>stats\<close> undefined that property access throws. The quotient passed to the
  panel is not a real number when the average is zero.
\<close>

definition endEstimateFaceStats :: "platform \<Rightarrow> app \<Rightarrow> completion \<times> app" where
  "endEstimateFaceStats e s =
     (let endInferenceTime = perfNowEnd e;
          s1 = s\<lparr>inferenceTimeSum := inferenceTimeSum s + (endInferenceTime - startInferenceTime s),
                 numInferences := numInferences s + 1\<rparr>;
          panelUpdateMilliseconds = 1000
      in if endInferenceTime - lastPanelUpdate s1 \<ge> panelUpdateMilliseconds then
           let averageInferenceTime = inferenceTimeSum s1 / real (numInferences s1);
               s2 = s1\<lparr>inferenceTimeSum := 0, numInferences := 0\<rparr>
           in if statsPanel s2
              then (Normal,
                    (emit (StatsPanelUpdate
                             (if averageInferenceTime = 0 then None
                              else Some (1000 / averageInferenceTime))) s2)
                      \<lparr>lastPanelUpdate := endInferenceTime\<rparr>)
              else (Throw (TypeError ''stats is undefined''), s2)
         else (Normal, s1))"

subsection \<open>One frame\<close>

text \<open>
  Modelled from the spec: camera.js is not among the sources. Its \<open>drawCtx\<close> paints the
  current video frame on the output canvas, which nothing below depends on; the call is
  logged.
\<close>

definition camera_drawCtx :: "app \<Rightarrow> app" where
  "camera_drawCtx s = emit DrawCtx s"

text \<open>
  Modelled from the spec: camera.js is not among the sources. The render loop hands the
  faces of a frame to the geometry evaluator, guidance composer and status display, which
  are \<open>drawResults\<close> of util.js; the camera's method of that name passes its own context
  and its arguments on.
\<close>

definition camera_drawResults ::
  "params \<Rightarrow> platform \<Rightarrow> face list \<Rightarrow> bool \<Rightarrow> bool \<Rightarrow> app \<Rightarrow> completion \<times> app" where
  "camera_drawResults P e faces boundingBox showKeypoints s =
     drawResults P e faces boundingBox showKeypoints s"

text \<open>
  \<open>renderResult\<close>. \<open>faces\<close> stays null when the detector is null or the inference throws.
  The first component of \<open>infer\<close> is that variable, the second what has happened up to and
  including \<open>endEstimateFaceStats\<close>.
\<close>

definition renderResult :: "params \<Rightarrow> platform \<Rightarrow> app \<Rightarrow> completion \<times> app" where
  "renderResult P e s =
     (if readyState e < 2 \<and> \<not> loadeddataFires e then (Hang, s)
      else
        let infer =
              (case detector s of
                 None \<Rightarrow> (None, (Normal, s))
               | Some d \<Rightarrow>
                   let s1 = emit (EstimateFaces d) (beginEstimateFaceStats e s)
                   in (case inference e of
                         Pending \<Rightarrow> (None, (Hang, s1))
                       | Returns fs \<Rightarrow> (Some fs, endEstimateFaceStats e s1)
                       | Throws err \<Rightarrow>
                           (None,
                            endEstimateFaceStats e
                              (emit (AlertError err)
                                 ((emit (Dispose d) s1)\<lparr>detector := None\<rparr>)))))
        in (case infer of
              (faces, (Normal, s2)) \<Rightarrow>
                let s3 = camera_drawCtx s2
                in (case faces of
                      None \<Rightarrow> (Normal, s3)
                    | Some fs \<Rightarrow>
                        if length fs > 0 \<and> \<not> isModelChanged s3
                        then camera_drawResults P e fs
                               (modelConfigBoundingBox s3) (modelConfigKeypoints s3) s3
                        else (Normal, s3))
            | (faces, (c, s2)) \<Rightarrow> (c, s2)))"

subsection \<open>The render loop\<close>

text \<open>
  \<open>checkGuiUpdate\<close>: the camera is set up again when the GUI changed its options, and the
  detector is replaced when the model, a flag or the backend changed. The old detector is
  disposed but the variable keeps it until \<open>createDetector\<close> has settled.
\<close>

definition checkGuiUpdate :: "platform \<Rightarrow> app \<Rightarrow> completion \<times> app" where
  "checkGuiUpdate e s =
     (let r1 = (if isTargetFPSChanged s \<or> isSizeOptionChanged s then
                  (case setupCamera e of
                     Normal \<Rightarrow>
                       (Normal, (emit SetupCamera s)
                                  \<lparr>isTargetFPSChanged := False, isSizeOptionChanged := False\<rparr>)
                   | c \<Rightarrow> (c, s))
                else (Normal, s))
      in (case r1 of
            (Normal, s1) \<Rightarrow>
              if isModelChanged s1 \<or> isFlagChanged s1 \<or> isBackendChanged s1 then
                let s2 = (emit CancelAnimationFrame (s1\<lparr>isModelChanged := True\<rparr>))
                           \<lparr>rafScheduled := False\<rparr>;
                    s3 = (case detector s2 of None \<Rightarrow> s2 | Some d \<Rightarrow> emit (Dispose d) s2);
                    r4 = (if isFlagChanged s3 \<or> isBackendChanged s3 then (setBackend e, s3)
                          else (Normal, s3))
                in (case r4 of
                      (Normal, s4) \<Rightarrow>
                        let s5 = (case createDetector e of
                                    Inr d' \<Rightarrow> s4\<lparr>detector := Some d'\<rparr>
                                  | Inl err \<Rightarrow> emit (AlertError err) (s4\<lparr>detector := None\<rparr>))
                        in (Normal, s5\<lparr>isFlagChanged := False, isBackendChanged := False,
                                       isModelChanged := False\<rparr>)
                    | (c, s4) \<Rightarrow> (c, s4))
              else (Normal, s1)
          | (c, s1) \<Rightarrow> (c, s1)))"

text \<open>
  \<open>renderPrediction\<close> requests the next animation frame as its last statement: when one
  of the awaited calls throws or never settles, no frame is requested.
\<close>

definition renderPrediction :: "params \<Rightarrow> platform \<Rightarrow> app \<Rightarrow> completion \<times> app" where
  "renderPrediction P e s =
     (case checkGuiUpdate e s of
        (Normal, s1) \<Rightarrow>
          (case (if \<not> isModelChanged s1 then renderResult P e s1 else (Normal, s1)) of
             (Normal, s2) \<Rightarrow> (Normal, (emit RequestAnimationFrame s2)\<lparr>rafScheduled := True\<rparr>)
           | (c, s2) \<Rightarrow> (c, s2))
      | (c, s1) \<Rightarrow> (c, s1))"

text \<open>
  The loop: each platform reading in the list is one animation frame. A frame runs only
  when a request is pending, and consumes it.
\<close>

fun frames :: "params \<Rightarrow> platform list \<Rightarrow> app \<Rightarrow> app" where
  "frames P [] s = s"
| "frames P (e # es) s =
     (if rafScheduled s
      then frames P es (snd (renderPrediction P e (s\<lparr>rafScheduled := False\<rparr>)))
      else frames P es s)"

subsection \<open>Capture\<close>

text \<open>
  The guard of both capture functions:
  \<open>statusElement && statusElement.textContent.includes('Centered')\<close>.
\<close>

definition statusIncludesCentered :: "'a page_scheme \<Rightarrow> bool" where
  "statusIncludesCentered s =
     (case faceStatus s of
        None \<Rightarrow> False
      | Some el \<Rightarrow> str_includes (textContent el) ''Centered'')"

definition index_utterance :: "string \<Rightarrow> utterance" where
  "index_utterance message = (new_utterance message)\<lparr>rate := 1.1, volume := 1\<rparr>"

definition playShutterSound :: "platform \<Rightarrow> app \<Rightarrow> app" where
  "playShutterSound e s = (if \<not> audioContext e then s else emit ShutterSound s)"

text \<open>The \<open>else\<close> branch shared by both capture functions.\<close>

definition warnNotCentered :: "platform \<Rightarrow> app \<Rightarrow> app" where
  "warnNotCentered e s =
     (case speechSynthesis e of
        Some sy \<Rightarrow>
          let warningMessage =
                ''Please center your face before taking a photo. Use the Announce Position button for guidance.''
          in emit (SynthSpeak (index_utterance warningMessage)) (emit SynthCancel s)
      | None \<Rightarrow> emit (Alert ''Please center your face before taking a photo.'') s)"

text \<open>
  Setting the size of a canvas clears it; the frame is then drawn through the mirroring
  transform. A missing element makes the first access to it throw.
\<close>

definition capturePhoto :: "platform \<Rightarrow> app \<Rightarrow> completion \<times> app" where
  "capturePhoto e s =
     (if statusIncludesCentered s then
        (case photoCanvas s of
           None \<Rightarrow> (Throw (TypeError ''photoCanvas is null''), s)
         | Some pc \<Rightarrow>
             let pc1 = pc\<lparr>pcWidth := videoWidth e, pcHeight := videoHeight e, content := Blank\<rparr>;
                 pc2 = pc1\<lparr>content := MirroredFrame (videoFrame e)\<rparr>;
                 imageUrl = PngDataUrl (pcWidth pc2) (pcHeight pc2) (content pc2);
                 s1 = s\<lparr>photoCanvas := Some pc2\<rparr>
             in (case capturedPhoto s1 of
                   None \<Rightarrow> (Throw (TypeError ''capturedPhoto is null''), s1)
                 | Some img \<Rightarrow>
                     let s2 = s1\<lparr>capturedPhoto :=
                                 Some (img\<lparr>src := Some imageUrl, display := ''block''\<rparr>)\<rparr>
                     in (case downloadPhotoButton s2 of
                           None \<Rightarrow> (Throw (TypeError ''downloadPhotoButton is null''), s2)
                         | Some btn \<Rightarrow>
                             let s3 = s2\<lparr>downloadPhotoButton := Some (btn\<lparr>disabled := False\<rparr>)\<rparr>;
                                 s4 = playShutterSound e s3
                             in (case speechSynthesis e of
                                   Some sy \<Rightarrow>
                                     let successMessage =
                                           ''Photo captured successfully. You can now download it using the Download Photo button.''
                                     in (Normal,
                                         emit (SynthSpeak (index_utterance successMessage))
                                           (emit SynthCancel s4))
                                 | None \<Rightarrow>
                                     (Normal, emit (Alert ''Photo captured successfully!'') s4)))))
      else (Normal, warnNotCentered e s))"

definition filename_of :: "string \<Rightarrow> string" where
  "filename_of stamp =
     ''selfie_'' @ map (\<lambda>c. if c = CHR '':'' \<or> c = CHR ''.'' then CHR ''-'' else c) stamp @ ''.png''"

text \<open>
  \<open>disableAppAndShowStartOver\<close> cancels the pending animation frame, swaps the buttons
  (logged as one call) and announces that the photo was taken.
\<close>

definition disableAppAndShowStartOver :: "platform \<Rightarrow> app \<Rightarrow> app" where
  "disableAppAndShowStartOver e s =
     (let s1 = (emit CancelAnimationFrame s)\<lparr>rafScheduled := False\<rparr>;
          s2 = emit ShowStartOver s1
      in (case speechSynthesis e of
            Some sy \<Rightarrow>
              emit (SynthSpeak (index_utterance
                ''Photo has been taken and downloaded. Press the Take Another Selfie button to take a new photo.''))
                s2
          | None \<Rightarrow> s2))"

text \<open>
  \<open>takeAndDownloadPhoto\<close>. With speech the saving is handed to \<open>setTimeout\<close> and is not run
  here; without speech \<open>savePhoto\<close> is called at once (its sharing or download is
  asynchronous and logged as one call).
\<close>

definition takeAndDownloadPhoto :: "platform \<Rightarrow> app \<Rightarrow> completion \<times> app" where
  "takeAndDownloadPhoto e s =
     (if statusIncludesCentered s then
        (case photoCanvas s of
           None \<Rightarrow> (Throw (TypeError ''photoCanvas is null''), s)
         | Some pc \<Rightarrow>
             let pc1 = pc\<lparr>pcWidth := videoWidth e, pcHeight := videoHeight e, content := Blank\<rparr>;
                 pc2 = pc1\<lparr>content := MirroredFrame (videoFrame e)\<rparr>;
                 imageUrl = PngDataUrl (pcWidth pc2) (pcHeight pc2) (content pc2);
                 s1 = s\<lparr>photoCanvas := Some pc2\<rparr>
             in (case capturedPhoto s1 of
                   None \<Rightarrow> (Throw (TypeError ''capturedPhoto is null''), s1)
                 | Some img \<Rightarrow>
                     let s2 = s1\<lparr>capturedPhoto :=
                                 Some (img\<lparr>src := Some imageUrl, display := ''block''\<rparr>)\<rparr>;
                         s3 = (case downloadPhotoButton s2 of
                                 None \<Rightarrow> s2
                               | Some btn \<Rightarrow>
                                   s2\<lparr>downloadPhotoButton := Some (btn\<lparr>disabled := False\<rparr>)\<rparr>);
                         s4 = playShutterSound e s3;
                         filename = filename_of (isoString e);
                         isMobile = mobileUserAgent e
                     in (case speechSynthesis e of
                           Some sy \<Rightarrow>
                             let successMessage =
                                   (if isMobile then ''Photo captured. Saving to gallery.''
                                    else ''Photo captured and downloading automatically.'')
                             in (Normal,
                                 emit (SetTimeout 1500 (SaveThenDisable imageUrl filename))
                                   (emit (SynthSpeak (index_utterance successMessage))
                                      (emit SynthCancel s4)))
                         | None \<Rightarrow>
                             let s5 = emit (SavePhoto imageUrl filename) s4;
                                 s6 = emit (Alert (if isMobile
                                                   then ''Photo captured. Saving to gallery.''
                                                   else ''Photo captured and downloaded successfully!''))
                                        s5
                             in (Normal, disableAppAndShowStartOver e s6))))
      else (Normal, warnNotCentered e s))"

subsection \<open>Initial state\<close>

text \<open>
  The page as index.html and the module initialisers give it: the waiting text in the
  status element, the download button disabled, the photo canvas at the default canvas
  size and the captured-photo image hidden. The output canvas size, the detector that
  \<open>app()\<close> created, whether development mode set up the statistics panel, and the two
  display options of \<open>STATE.modelConfig\<close> are parameters.
\<close>

definition initial_app :: "nat \<Rightarrow> nat \<Rightarrow> nat \<Rightarrow> bool \<Rightarrow> bool \<Rightarrow> bool \<Rightarrow> app" where
  "initial_app cw ch d dev bb kp =
     \<lparr>lastAnnouncedStatus = '''', lastAnnouncementTime = 0, currentFaceGuidance = None,
      faceStatus = Some \<lparr>textContent = ''Face position: Waiting for detection...'',
                         color = ''''\<rparr>,
      takeAndDownloadButton = True, canvasWidth = cw, canvasHeight = ch,
      strokeStyle = ''#000000'', fillStyle = ''#000000'', lineWidth = 1, effects = [],
      detector = Some d, statsPanel = dev, startInferenceTime = 0, numInferences = 0,
      inferenceTimeSum = 0, lastPanelUpdate = 0, rafScheduled = False,
      isTargetFPSChanged = False, isSizeOptionChanged = False, isModelChanged = False,
      isFlagChanged = False, isBackendChanged = False,
      modelConfigBoundingBox = bb, modelConfigKeypoints = kp,
      photoCanvas = Some \<lparr>pcWidth = 300, pcHeight = 150, content = Blank\<rparr>,
      capturedPhoto = Some \<lparr>src = None, display = ''none''\<rparr>,
      downloadPhotoButton = Some \<lparr>disabled = True\<rparr>\<rparr>"

section \<open>Specification-side notions\<close>

text \<open>
  The centre of a box is the midpoint of its corners, and the offsets are taken from the
  centre of the frame.
\<close>

definition offsetX :: "face_box \<Rightarrow> nat \<Rightarrow> real" where
  "offsetX b w = (xMin b + xMax b) / 2 - real w / 2"

definition offsetY :: "face_box \<Rightarrow> nat \<Rightarrow> real" where
  "offsetY b h = (yMin b + yMax b) / 2 - real h / 2"

text \<open>
  The last step of the composer on its own: the three clauses filtered, joined and
  terminated as the source does it.
\<close>

definition compose_parts :: "string \<Rightarrow> string \<Rightarrow> string \<Rightarrow> string" where
  "compose_parts h v d =
     (let guidanceParts = filter (\<lambda>part. part \<noteq> '''') [h, v, d]
      in if length guidanceParts = 0 then ''Almost centered. Make small adjustments.''
         else join ''. '' guidanceParts @ ''.'')"

text \<open>
  The three clauses as the specification words them, over the offsets of the box centre
  and the width of the box.
\<close>

definition horizontal_clause :: "face_box \<Rightarrow> nat \<Rightarrow> string" where
  "horizontal_clause b w =
     (if offsetX b w < - (0.1 * real w) then ''Move right''
      else if offsetX b w > 0.1 * real w then ''Move left'' else '''')"

definition vertical_clause :: "face_box \<Rightarrow> nat \<Rightarrow> string" where
  "vertical_clause b h =
     (if offsetY b h < - (0.1 * real h) then ''Move down''
      else if offsetY b h > 0.1 * real h then ''Move up'' else '''')"

definition distance_clause :: "face_box \<Rightarrow> nat \<Rightarrow> string" where
  "distance_clause b w =
     (if xMax b - xMin b < 0.7 * (0.4 * real w) then ''Move closer to the camera''
      else if xMax b - xMin b > 1.3 * (0.4 * real w) then ''Move farther from the camera''
      else '''')"



text \<open>The texts handed to \<open>speechSynthesis.speak\<close>, in order.\<close>

fun speech_calls :: "effect list \<Rightarrow> string list" where
  "speech_calls [] = []"
| "speech_calls (SynthSpeak u # evs) = spoken u # speech_calls evs"
| "speech_calls (ev # evs) = speech_calls evs"

text \<open>
  A platform with speech synthesis that throws nothing, idle or speaking, at a given time.
\<close>

definition speech_env :: "bool \<Rightarrow> int \<Rightarrow> env" where
  "speech_env busy now =
     \<lparr>speechSynthesis = Some \<lparr>speaking = busy, paused = False, resumeThrows = False,
                              speakThrows = False\<rparr>,
      dateNow = now\<rparr>"

text \<open>
  What the announcement throttle reads and writes: its two module variables and the calls
  on the synthesizer.
\<close>

fun is_synth :: "effect \<Rightarrow> bool" where
  "is_synth SynthCancel = True"
| "is_synth SynthResume = True"
| "is_synth (SynthSpeak u) = True"
| "is_synth ev = False"

definition announcement_view :: "'a page_scheme \<Rightarrow> string \<times> int \<times> effect list" where
  "announcement_view s =
     (lastAnnouncedStatus s, lastAnnouncementTime s, filter is_synth (effects s))"

text \<open>
  The message and the interrupt flag with which a face is announced, and the announcements
  of a list of faces in order.
\<close>

definition face_announcement :: "face \<Rightarrow> nat \<Rightarrow> nat \<Rightarrow> string \<times> bool" where
  "face_announcement fc w h =
     (if isFaceCentered fc w h = Inr True then (centered_announcement, True)
      else (getFacePositionGuidance (Some fc) w h, False))"

fun announce_faces ::
  "'e env_scheme \<Rightarrow> nat \<Rightarrow> nat \<Rightarrow> face list \<Rightarrow> 'a page_scheme \<Rightarrow> 'a page_scheme" where
  "announce_faces e w h [] s = s"
| "announce_faces e w h (fc # fcs) s =
     announce_faces e w h fcs
       (speakMessage e (fst (face_announcement fc w h)) (snd (face_announcement fc w h)) s)"

text \<open>What a frame drawn without bounding boxes must leave alone.\<close>

definition quiet_part ::
  "'a page_scheme \<Rightarrow> status_element option \<times> string option \<times> string \<times> int \<times> string list" where
  "quiet_part s =
     (faceStatus s, currentFaceGuidance s, lastAnnouncedStatus s, lastAnnouncementTime s,
      speech_calls (effects s))"

text \<open>The corrective message of a refused capture: spoken, or shown when there is no speech.\<close>

definition corrective_calls :: "platform \<Rightarrow> effect list" where
  "corrective_calls e =
     (case speechSynthesis e of
        Some sy \<Rightarrow>
          [SynthCancel,
           SynthSpeak (index_utterance
             ''Please center your face before taking a photo. Use the Announce Position button for guidance.'')]
      | None \<Rightarrow> [Alert ''Please center your face before taking a photo.''])"

subsection \<open>Sample inputs\<close>

text \<open>
  Sample values for the constants of params.js, and two faces in a 640 by 480 frame: one
  in the middle of the frame, one at its left edge.
\<close>

definition demo_params :: params where
  "demo_params = \<lparr>RED = ''#FF2C35'', GREEN = ''#32EEDB'', NUM_KEYPOINTS = 6\<rparr>"

definition centered_face :: face where
  "centered_face =
     \<lparr>box = Some \<lparr>xMin = 220, yMin = 140, xMax = 420, yMax = 340\<rparr>,
      keypoints = [(280, 200), (360, 200), (320, 240), (320, 280), (230, 220), (410, 220)]\<rparr>"

definition left_face :: face where
  "left_face =
     \<lparr>box = Some \<lparr>xMin = 0, yMin = 140, xMax = 200, yMax = 340\<rparr>,
      keypoints = [(60, 200), (140, 200), (100, 240), (100, 280), (10, 220), (190, 220)]\<rparr>"

text \<open>
  Sample runs of \<open>drawResults\<close> with speech in progress. With bounding boxes on: a frame
  with the centered face, then a frame with the face at the left edge half a second later,
  and a single frame that carries both faces. With bounding boxes off: a frame with the
  centered face.
\<close>

definition after_centered :: app where
  "after_centered =
     snd (drawResults demo_params (speech_env True 1000000) [centered_face] True False
            (initial_app 640 480 0 True True False))"

definition after_left :: app where
  "after_left =
     snd (drawResults demo_params (speech_env True 1000500) [left_face] True False
            after_centered)"

definition after_two_faces :: app where
  "after_two_faces =
     snd (drawResults demo_params (speech_env True 1000000) [left_face, centered_face] True True
            (initial_app 640 480 0 True True False))"

definition after_unboxed :: app where
  "after_unboxed =
     snd (drawResults demo_params (speech_env True 1000000) [centered_face] False False
            (initial_app 640 480 0 True True False))"

definition guidance_utterance :: "string \<Rightarrow> utterance" where
  "guidance_utterance message =
     \<lparr>spoken = message, volume = 1, rate = 1.1, pitch = 1, lang = ''en-US''\<rparr>"

text \<open>
  A platform whose video is ready, with given speech synthesis, time, inference outcome and
  \<open>performance.now()\<close> reading; an inference takes 20 ms.
\<close>

definition idle_synth :: synth where
  "idle_synth = \<lparr>speaking = False, paused = False, resumeThrows = False, speakThrows = False\<rparr>"

definition demo_platform :: "synth option \<Rightarrow> int \<Rightarrow> inference_outcome \<Rightarrow> real \<Rightarrow> platform" where
  "demo_platform sy now outcome t =
     \<lparr>speechSynthesis = sy, dateNow = now, perfNowBegin = t, perfNowEnd = t + 20,
      readyState = 4, loadeddataFires = True, inference = outcome,
      videoWidth = 640, videoHeight = 480, videoFrame = 7, audioContext = True,
      mobileUserAgent = False, isoString = ''2025-01-01T12:00:00.000Z'',
      setupCamera = Normal, setBackend = Normal, createDetector = Inr 1\<rparr>"

text \<open>
  Sample runs of the render loop. In development mode (the statistics panel exists): a
  frame in which the detector reports the centered face, followed by a frame in which it
  reports no face. In production mode (no statistics panel): a first frame, five seconds
  after page load, in which the inference throws.
\<close>

definition centered_render :: "completion \<times> app" where
  "centered_render =
     renderResult demo_params
       (demo_platform (Some idle_synth) 1000000 (Returns [centered_face]) 5000)
       (initial_app 640 480 0 True True False)"

definition empty_render :: "completion \<times> app" where
  "empty_render =
     renderResult demo_params (demo_platform (Some idle_synth) 1000100 (Returns []) 5100)
       (snd centered_render)"

definition production_fault :: "completion \<times> app" where
  "production_fault =
     renderPrediction demo_params
       (demo_platform (Some idle_synth) 1000000 (Throws (Error ''unexpected model output''))
          5000)
       (initial_app 640 480 0 False True False)"

section \<open>Properties\<close>

subsection \<open>Centering decision\<close>


subsection \<open>Guidance composer\<close>

lemma guidance_compose:
  "getFacePositionGuidance (Some \<lparr>box = Some b, keypoints = ks\<rparr>) w h =
     compose_parts (horizontal_clause b w) (vertical_clause b h) (distance_clause b w)"
proof -
  have cx: "xMin b + (xMax b - xMin b) / 2 - real w / 2 = offsetX b w"
    by (simp add: offsetX_def field_simps)
  have cy: "yMin b + (yMax b - yMin b) / 2 - real h / 2 = offsetY b h"
    by (simp add: offsetY_def field_simps)
  have m: "- real w * 0.1 = - (0.1 * real w)" "real w * 0.1 = 0.1 * real w"
    "- real h * 0.1 = - (0.1 * real h)" "real h * 0.1 = 0.1 * real h"
    "real w * 0.4 * 0.7 = 0.7 * (0.4 * real w)" "real w * 0.4 * 1.3 = 1.3 * (0.4 * real w)"
    by simp_all
  show ?thesis
    unfolding getFacePositionGuidance_def Let_def compose_parts_def horizontal_clause_def
      vertical_clause_def distance_clause_def
    by (simp only: face.simps option.case cx cy m)
qed

















subsection \<open>Announcement throttle\<close>

lemma speech_calls_append: "speech_calls (xs @ ys) = speech_calls xs @ speech_calls ys"
  by (induction xs rule: speech_calls.induct) simp_all



subsection \<open>Status text\<close>

lemma speakMessage_frame [simp]:
  "faceStatus (speakMessage e m i s) = faceStatus s"
  "currentFaceGuidance (speakMessage e m i s) = currentFaceGuidance s"
  "canvasWidth (speakMessage e m i s) = canvasWidth s"
  "canvasHeight (speakMessage e m i s) = canvasHeight s"
  "takeAndDownloadButton (speakMessage e m i s) = takeAndDownloadButton s"
  by (simp_all add: speakMessage_def emit_def Let_def split: option.splits)

lemma emit_frame [simp]:
  "faceStatus (emit ev s) = faceStatus s"
  "currentFaceGuidance (emit ev s) = currentFaceGuidance s"
  "lastAnnouncedStatus (emit ev s) = lastAnnouncedStatus s"
  "lastAnnouncementTime (emit ev s) = lastAnnouncementTime s"
  "canvasWidth (emit ev s) = canvasWidth s"
  "canvasHeight (emit ev s) = canvasHeight s"
  "takeAndDownloadButton (emit ev s) = takeAndDownloadButton s"
  "effects (emit ev s) = effects s @ [ev]"
  by (simp_all add: emit_def)

lemma centered_text: "str_includes (''Face position: Centered'' @ '' '' @ check_mark) ''Centered''"
  unfolding check_mark_def by code_simp

lemma not_centered_text:
  "\<not> str_includes (''Face position: Not centered - Please center your face'' @ '' '' @ cross_mark)
       ''Centered''"
  unfolding cross_mark_def by code_simp

lemma no_face_text: "\<not> str_includes ''Face position: No face detected'' ''Centered''"
  by code_simp

lemma waiting_text: "\<not> str_includes ''Face position: Waiting for detection...'' ''Centered''"
  by code_simp

lemma updateFaceStatus_shows:
  "faceStatus s \<noteq> None \<Longrightarrow> statusIncludesCentered (updateFaceStatus e c s) = c"
  using centered_text not_centered_text
  by (auto simp: updateFaceStatus_def statusIncludesCentered_def Let_def split: option.splits)

text \<open>
  C6. Over all status updates, the face-status text contains \<open>Centered\<close> exactly when the
  face is considered centered: \<open>updateFaceStatus\<close> writes a text that contains it exactly
  when its argument is true, and neither the no-face text written by \<open>drawResults\<close> nor
  the initial waiting text contains it.
\<close>

theorem status_text_Centered_iff:
  "(faceStatus s \<noteq> None \<longrightarrow> statusIncludesCentered (updateFaceStatus e c s) = c) \<and>
   \<not> statusIncludesCentered (snd (drawResults P e [] bb kp s)) \<and>
   \<not> statusIncludesCentered (initial_app cw ch d dev bb' kp')"
proof (intro conjI impI)
  show "statusIncludesCentered (updateFaceStatus e c s) = c" if "faceStatus s \<noteq> None"
    using that by (rule updateFaceStatus_shows)
  show "\<not> statusIncludesCentered (snd (drawResults P e [] bb kp s))"
    using no_face_text
    by (simp add: drawResults_def statusIncludesCentered_def split: option.splits)
  show "\<not> statusIncludesCentered (initial_app cw ch d dev bb' kp')"
    using waiting_text by (simp add: initial_app_def statusIncludesCentered_def)
qed

theorem status_text_Centered_iff_witness:
  "faceStatus (initial_app 640 480 0 True True False) \<noteq> None \<and>
   statusIncludesCentered
     (updateFaceStatus (speech_env False 1000000) True (initial_app 640 480 0 True True False)) \<and>
   \<not> statusIncludesCentered
     (updateFaceStatus (speech_env False 1000000) False (initial_app 640 480 0 True True False))"
proof -
  have h: "faceStatus (initial_app 640 480 0 True True False) \<noteq> None"
    by (simp add: initial_app_def)
  show ?thesis
    using h
      status_text_Centered_iff [of "initial_app 640 480 0 True True False"
        "speech_env False 1000000" True]
      status_text_Centered_iff [of "initial_app 640 480 0 True True False"
        "speech_env False 1000000" False]
    by simp
qed

subsection \<open>Frames drawn without bounding boxes\<close>

lemma drawKeypoints_frame [simp]:
  "faceStatus (snd (drawKeypoints kps ixs s)) = faceStatus s"
  "currentFaceGuidance (snd (drawKeypoints kps ixs s)) = currentFaceGuidance s"
  "lastAnnouncedStatus (snd (drawKeypoints kps ixs s)) = lastAnnouncedStatus s"
  "lastAnnouncementTime (snd (drawKeypoints kps ixs s)) = lastAnnouncementTime s"
  "canvasWidth (snd (drawKeypoints kps ixs s)) = canvasWidth s"
  "canvasHeight (snd (drawKeypoints kps ixs s)) = canvasHeight s"
  by (induction ixs arbitrary: s; simp)+

lemma drawKeypoints_speech [simp]:
  "speech_calls (effects (snd (drawKeypoints kps ixs s))) = speech_calls (effects s)"
  by (induction ixs arbitrary: s) (simp_all add: speech_calls_append)

lemma drawKeypoints_synth [simp]:
  "filter is_synth (effects (snd (drawKeypoints kps ixs s))) = filter is_synth (effects s)"
  by (induction ixs arbitrary: s) simp_all

lemma drawKeypoints_Normal:
  "\<forall>i\<in>set ixs. i < length kps \<Longrightarrow> fst (drawKeypoints kps ixs s) = Normal"
  by (induction ixs arbitrary: s) simp_all

lemma drawFace_unboxed_quiet: "quiet_part (snd (drawFace P e False kp fc s)) = quiet_part s"
  by (simp add: drawFace_def quiet_part_def)

lemma forEach_unboxed_quiet:
  "quiet_part (snd (forEach (drawFace P e False kp) faces s)) = quiet_part s"
proof (induction faces arbitrary: s)
  case Nil
  show ?case by simp
next
  case (Cons fc faces)
  obtain c s' where r: "drawFace P e False kp fc s = (c, s')"
    by (cases "drawFace P e False kp fc s")
  have q: "quiet_part s' = quiet_part s"
    using drawFace_unboxed_quiet [of P e kp fc s] r by simp
  show ?case
    using Cons.IH [of s'] q r by (cases c) simp_all
qed

text \<open>
  C10. For every frame with a non-empty face list drawn with the bounding-box option off,
  \<open>drawResults\<close> leaves the face-status element, the cached guidance and the announcement
  record as they were and makes no speech call, also when drawing the keypoints throws.
\<close>

theorem drawResults_without_boxes:
  "faces \<noteq> [] \<Longrightarrow>
   faceStatus (snd (drawResults P e faces False kp s)) = faceStatus s \<and>
   currentFaceGuidance (snd (drawResults P e faces False kp s)) = currentFaceGuidance s \<and>
   lastAnnouncedStatus (snd (drawResults P e faces False kp s)) = lastAnnouncedStatus s \<and>
   lastAnnouncementTime (snd (drawResults P e faces False kp s)) = lastAnnouncementTime s \<and>
   speech_calls (effects (snd (drawResults P e faces False kp s))) = speech_calls (effects s)"
  using forEach_unboxed_quiet [of P e kp faces s]
  by (simp add: drawResults_def quiet_part_def)

theorem drawResults_without_boxes_witness:
  "[centered_face] \<noteq> [] \<and>
   faceStatus (snd (drawResults demo_params (speech_env False 1000000) [centered_face] False True
      (initial_app 640 480 0 True False True)))
     = Some \<lparr>textContent = ''Face position: Waiting for detection...'', color = ''''\<rparr> \<and>
   currentFaceGuidance (snd (drawResults demo_params (speech_env False 1000000) [centered_face]
      False True (initial_app 640 480 0 True False True))) = None \<and>
   speech_calls (effects (snd (drawResults demo_params (speech_env False 1000000) [centered_face]
      False True (initial_app 640 480 0 True False True)))) = []"
proof -
  have h: "[centered_face] \<noteq> []" by simp
  show ?thesis
    using drawResults_without_boxes [OF h, of demo_params "speech_env False 1000000" True
        "initial_app 640 480 0 True False True"]
    by (simp add: initial_app_def)
qed

subsection \<open>Frames drawn with bounding boxes\<close>

lemma compose_parts_nonempty: "compose_parts h v d \<noteq> ''''"
  by (simp add: compose_parts_def Let_def)

lemma guidance_nonempty:
  "box fc = Some b \<Longrightarrow> getFacePositionGuidance (Some fc) w h \<noteq> ''''"
  using guidance_compose [of b "keypoints fc" w h] compose_parts_nonempty
  by (cases fc) simp

lemma isFaceCentered_boxed:
  "box fc = Some b \<Longrightarrow> \<exists>c. isFaceCentered fc w h = Inr c"
  by (simp add: isFaceCentered_def Let_def)

lemma speakMessage_view_cong:
  "announcement_view s = announcement_view t \<Longrightarrow>
   announcement_view (speakMessage e m i s) = announcement_view (speakMessage e m i t)"
  by (auto simp: announcement_view_def speakMessage_def emit_def Let_def split: option.splits)

lemma announce_faces_view_cong:
  "announcement_view s = announcement_view t \<Longrightarrow>
   announcement_view (announce_faces e w h faces s) = announcement_view (announce_faces e w h faces t)"
proof (induction faces arbitrary: s t)
  case Nil
  then show ?case by simp
next
  case (Cons fc faces)
  show ?case
    using Cons.IH [OF speakMessage_view_cong [OF Cons.prems]] by simp
qed

lemma updateFaceStatus_view:
  assumes "faceStatus s \<noteq> None" "c \<or> (\<exists>g. currentFaceGuidance s = Some g \<and> g \<noteq> '''')"
  shows "announcement_view (updateFaceStatus e c s) =
           announcement_view (speakMessage e (if c then centered_announcement
                                               else the (currentFaceGuidance s)) c s)"
proof -
  obtain el where el: "faceStatus s = Some el" using assms(1) by auto
  have v: "\<And>el'. announcement_view (s\<lparr>faceStatus := el'\<rparr>) = announcement_view s"
    by (simp add: announcement_view_def)
  show ?thesis
  proof (cases c)
    case True
    then show ?thesis
      using speakMessage_view_cong [OF v, of e centered_announcement True]
      by (simp add: updateFaceStatus_def el Let_def announcement_view_def)
  next
    case False
    then obtain g where g: "currentFaceGuidance s = Some g" "g \<noteq> ''''" using assms(2) by auto
    show ?thesis
      using False g speakMessage_view_cong [OF v, of e g False]
      by (simp add: updateFaceStatus_def el Let_def)
  qed
qed

lemma drawKeypoints_view [simp]:
  "announcement_view (snd (drawKeypoints kps ixs s)) = announcement_view s"
  by (simp add: announcement_view_def)

lemma updateFaceStatus_frame [simp]:
  "canvasWidth (updateFaceStatus e c s) = canvasWidth s"
  "canvasHeight (updateFaceStatus e c s) = canvasHeight s"
  "currentFaceGuidance (updateFaceStatus e c s) = currentFaceGuidance s"
  by (simp_all add: updateFaceStatus_def Let_def split: option.splits)

lemma updateFaceStatus_keeps_element:
  "faceStatus s \<noteq> None \<Longrightarrow> faceStatus (updateFaceStatus e c s) \<noteq> None"
  by (auto simp: updateFaceStatus_def Let_def split: option.splits)

lemma statusIncludesCentered_fillStyle [simp]:
  "statusIncludesCentered (s\<lparr>fillStyle := v\<rparr>) = statusIncludesCentered s"
  by (simp add: statusIncludesCentered_def)

lemma statusIncludesCentered_drawKeypoints [simp]:
  "statusIncludesCentered (snd (drawKeypoints kps ixs s)) = statusIncludesCentered s"
  by (simp add: statusIncludesCentered_def)

lemma drawFace_boxed_form:
  assumes b: "box fc = Some b" and c: "isFaceCentered fc (canvasWidth s) (canvasHeight s) = Inr c"
  shows "drawFace P e True kp fc s =
           (if kp
            then drawKeypoints (keypoints fc) [0 ..< NUM_KEYPOINTS P]
                   ((updateFaceStatus e c
                       ((drawPath [(xMin b, yMin b), (xMax b, yMin b), (xMax b, yMax b),
                                   (xMin b, yMax b)]
                           True (s\<lparr>strokeStyle := RED P, lineWidth := 1\<rparr>))
                        \<lparr>currentFaceGuidance :=
                           Some (getFacePositionGuidance (Some fc) (canvasWidth s)
                                   (canvasHeight s))\<rparr>))\<lparr>fillStyle := GREEN P\<rparr>)
            else (Normal, updateFaceStatus e c
                       ((drawPath [(xMin b, yMin b), (xMax b, yMin b), (xMax b, yMax b),
                                   (xMin b, yMax b)]
                           True (s\<lparr>strokeStyle := RED P, lineWidth := 1\<rparr>))
                        \<lparr>currentFaceGuidance :=
                           Some (getFacePositionGuidance (Some fc) (canvasWidth s)
                                   (canvasHeight s))\<rparr>)))"
  using b c unfolding drawFace_def drawPath_def Let_def
  by (simp add: emit_def)

lemma drawFace_boxed:
  assumes b: "box fc = Some b" and el: "faceStatus s \<noteq> None"
  shows "announcement_view (snd (drawFace P e True kp fc s)) =
           announcement_view
             (speakMessage e (fst (face_announcement fc (canvasWidth s) (canvasHeight s)))
                (snd (face_announcement fc (canvasWidth s) (canvasHeight s))) s)"
    and "currentFaceGuidance (snd (drawFace P e True kp fc s)) =
           Some (getFacePositionGuidance (Some fc) (canvasWidth s) (canvasHeight s))"
    and "statusIncludesCentered (snd (drawFace P e True kp fc s)) =
           (isFaceCentered fc (canvasWidth s) (canvasHeight s) = Inr True)"
    and "faceStatus (snd (drawFace P e True kp fc s)) \<noteq> None"
    and "canvasWidth (snd (drawFace P e True kp fc s)) = canvasWidth s"
    and "canvasHeight (snd (drawFace P e True kp fc s)) = canvasHeight s"
proof -
  obtain c where c: "isFaceCentered fc (canvasWidth s) (canvasHeight s) = Inr c"
    using isFaceCentered_boxed [OF b] by blast
  define g where "g = getFacePositionGuidance (Some fc) (canvasWidth s) (canvasHeight s)"
  define s3 where
    "s3 = (drawPath [(xMin b, yMin b), (xMax b, yMin b), (xMax b, yMax b), (xMin b, yMax b)]
             True (s\<lparr>strokeStyle := RED P, lineWidth := 1\<rparr>))\<lparr>currentFaceGuidance := Some g\<rparr>"
  have form: "drawFace P e True kp fc s =
           (if kp
            then drawKeypoints (keypoints fc) [0 ..< NUM_KEYPOINTS P]
                   ((updateFaceStatus e c s3)\<lparr>fillStyle := GREEN P\<rparr>)
            else (Normal, updateFaceStatus e c s3))"
    unfolding s3_def g_def by (rule drawFace_boxed_form [OF b c])
  have gne: "g \<noteq> ''''" unfolding g_def by (rule guidance_nonempty [OF b])
  have s3el: "faceStatus s3 \<noteq> None" using el by (simp add: s3_def drawPath_def)
  have s3g: "currentFaceGuidance s3 = Some g" by (simp add: s3_def)
  have s3v: "announcement_view s3 = announcement_view s"
    by (simp add: s3_def drawPath_def announcement_view_def)
  have fa: "face_announcement fc (canvasWidth s) (canvasHeight s) =
              (if c then centered_announcement else g, c)"
    using c by (simp add: face_announcement_def g_def)
  have upd: "announcement_view (updateFaceStatus e c s3) =
               announcement_view (speakMessage e (if c then centered_announcement else g) c s)"
  proof -
    have "announcement_view (updateFaceStatus e c s3) =
            announcement_view (speakMessage e (if c then centered_announcement
                                                else the (currentFaceGuidance s3)) c s3)"
      using s3g gne by (intro updateFaceStatus_view [OF s3el]) simp
    also have "the (currentFaceGuidance s3) = g" by (simp add: s3g)
    finally show ?thesis
      by (simp only: speakMessage_view_cong [OF s3v])
  qed
  have fill: "\<And>t v. announcement_view (t\<lparr>fillStyle := v\<rparr>) = announcement_view t"
    by (simp add: announcement_view_def)
  show "announcement_view (snd (drawFace P e True kp fc s)) =
           announcement_view
             (speakMessage e (fst (face_announcement fc (canvasWidth s) (canvasHeight s)))
                (snd (face_announcement fc (canvasWidth s) (canvasHeight s))) s)"
  proof -
    have "announcement_view (snd (drawFace P e True kp fc s)) =
            announcement_view (updateFaceStatus e c s3)"
      by (simp add: form fill)
    then show ?thesis
      by (simp only: fa fst_conv snd_conv upd)
  qed
  show "currentFaceGuidance (snd (drawFace P e True kp fc s)) =
           Some (getFacePositionGuidance (Some fc) (canvasWidth s) (canvasHeight s))"
    using s3g by (simp add: form g_def)
  show "statusIncludesCentered (snd (drawFace P e True kp fc s)) =
           (isFaceCentered fc (canvasWidth s) (canvasHeight s) = Inr True)"
    using updateFaceStatus_shows [OF s3el, of e c] c by (simp add: form)
  show "faceStatus (snd (drawFace P e True kp fc s)) \<noteq> None"
    using updateFaceStatus_keeps_element [OF s3el, of e c] by (simp add: form)
  show "canvasWidth (snd (drawFace P e True kp fc s)) = canvasWidth s"
    by (simp add: form s3_def drawPath_def)
  show "canvasHeight (snd (drawFace P e True kp fc s)) = canvasHeight s"
    by (simp add: form s3_def drawPath_def)
qed

lemma drawFace_boxed_Normal:
  assumes b: "box fc = Some b" and k: "kp \<longrightarrow> NUM_KEYPOINTS P \<le> length (keypoints fc)"
  shows "fst (drawFace P e True kp fc s) = Normal"
proof -
  obtain c where c: "isFaceCentered fc (canvasWidth s) (canvasHeight s) = Inr c"
    using isFaceCentered_boxed [OF b] by blast
  show ?thesis
  proof (cases kp)
    case True
    then have "\<forall>i\<in>set [0 ..< NUM_KEYPOINTS P]. i < length (keypoints fc)"
      using k by auto
    then show ?thesis
      using True by (simp add: drawFace_boxed_form [OF b c] drawKeypoints_Normal)
  next
    case False
    then show ?thesis by (simp add: drawFace_boxed_form [OF b c])
  qed
qed

lemma forEach_boxed:
  assumes "\<forall>fc\<in>set faces. box fc \<noteq> None" and "faceStatus s \<noteq> None"
    and "kp \<longrightarrow> (\<forall>fc\<in>set faces. NUM_KEYPOINTS P \<le> length (keypoints fc))"
  shows "fst (forEach (drawFace P e True kp) faces s) = Normal \<and>
         announcement_view (snd (forEach (drawFace P e True kp) faces s)) =
           announcement_view (announce_faces e (canvasWidth s) (canvasHeight s) faces s) \<and>
         (faces \<noteq> [] \<longrightarrow>
            currentFaceGuidance (snd (forEach (drawFace P e True kp) faces s)) =
              Some (getFacePositionGuidance (Some (last faces)) (canvasWidth s) (canvasHeight s)) \<and>
            statusIncludesCentered (snd (forEach (drawFace P e True kp) faces s)) =
              (isFaceCentered (last faces) (canvasWidth s) (canvasHeight s) = Inr True))"
  using assms
proof (induction faces arbitrary: s)
  case Nil
  show ?case by simp
next
  case (Cons fc rest)
  obtain b where b: "box fc = Some b" using Cons.prems(1) by auto
  have el: "faceStatus s \<noteq> None" by (rule Cons.prems(2))
  have k: "kp \<longrightarrow> NUM_KEYPOINTS P \<le> length (keypoints fc)" using Cons.prems(3) by simp
  obtain s1 where s1: "drawFace P e True kp fc s = (Normal, s1)"
    using drawFace_boxed_Normal [OF b k, of e s] by (cases "drawFace P e True kp fc s") simp
  note face = drawFace_boxed [OF b el, of P e kp, unfolded s1 snd_conv]
  have step: "forEach (drawFace P e True kp) (fc # rest) s = forEach (drawFace P e True kp) rest s1"
    by (simp add: s1)
  have ih: "fst (forEach (drawFace P e True kp) rest s1) = Normal \<and>
         announcement_view (snd (forEach (drawFace P e True kp) rest s1)) =
           announcement_view (announce_faces e (canvasWidth s) (canvasHeight s) rest s1) \<and>
         (rest \<noteq> [] \<longrightarrow>
            currentFaceGuidance (snd (forEach (drawFace P e True kp) rest s1)) =
              Some (getFacePositionGuidance (Some (last rest)) (canvasWidth s) (canvasHeight s)) \<and>
            statusIncludesCentered (snd (forEach (drawFace P e True kp) rest s1)) =
              (isFaceCentered (last rest) (canvasWidth s) (canvasHeight s) = Inr True))"
    using Cons.IH [of s1] Cons.prems(1,3) face(4) by (simp add: face(5,6))
  have v: "announcement_view (announce_faces e (canvasWidth s) (canvasHeight s) rest s1) =
           announcement_view (announce_faces e (canvasWidth s) (canvasHeight s) (fc # rest) s)"
    using announce_faces_view_cong [OF face(1)] by simp
  show ?case
  proof (cases "rest = []")
    case True
    then show ?thesis using face(2,3) ih v by (simp add: s1)
  next
    case False
    then show ?thesis using ih v by (simp add: step del: forEach.simps)
  qed
qed

text \<open>
  C8, as amended. For every frame with at least one face, drawn with bounding boxes on a
  page that has the status element, where every face carries a box (and enough keypoints
  when keypoints are drawn): \<open>drawResults\<close> completes, and it treats every face of the
  list in order, not the first alone. For each face the centering is evaluated and the
  guidance is composed and cached, whether the face is centered or not; the throttle is
  called with the fixed centered message and interrupt set when the face is centered, and
  otherwise with the composed guidance and interrupt not set, whatever the previous frame
  showed. The last face decides the cached guidance and the status text.
\<close>

theorem drawResults_announces_every_face:
  assumes "faces \<noteq> []" and "\<forall>fc\<in>set faces. box fc \<noteq> None" and "faceStatus s \<noteq> None"
    and "kp \<longrightarrow> (\<forall>fc\<in>set faces. NUM_KEYPOINTS P \<le> length (keypoints fc))"
  shows "fst (drawResults P e faces True kp s) = Normal \<and>
         announcement_view (snd (drawResults P e faces True kp s)) =
           announcement_view (announce_faces e (canvasWidth s) (canvasHeight s) faces s) \<and>
         currentFaceGuidance (snd (drawResults P e faces True kp s)) =
           Some (getFacePositionGuidance (Some (last faces)) (canvasWidth s) (canvasHeight s)) \<and>
         statusIncludesCentered (snd (drawResults P e faces True kp s)) =
           (isFaceCentered (last faces) (canvasWidth s) (canvasHeight s) = Inr True)"
  using forEach_boxed [OF assms(2,3,4), of e] assms(1)
  by (simp add: drawResults_def)

lemmas eval_defs =
  drawResults_def drawFace_def drawPath_def isFaceCentered_def getFacePositionGuidance_def
  updateFaceStatus_def speakMessage_def emit_def Let_def initial_app_def speech_env_def
  demo_params_def centered_face_def left_face_def new_utterance_def centered_announcement_def
  not_centered_announcement_def check_mark_def cross_mark_def guidance_utterance_def

lemma after_centered_eq:
  "after_centered =
    (initial_app 640 480 0 True True False)
      \<lparr>lastAnnouncedStatus := centered_announcement, lastAnnouncementTime := 1000000,
       currentFaceGuidance := Some ''Almost centered. Make small adjustments.'',
       faceStatus := Some \<lparr>textContent = ''Face position: Centered'' @ '' '' @ check_mark,
                           color = ''green''\<rparr>,
       strokeStyle := ''#FF2C35'', lineWidth := 1,
       effects := [StrokePath [(220, 140), (420, 140), (420, 340), (220, 340)] True,
                   SynthCancel,
                   SynthSpeak (guidance_utterance centered_announcement),
                   ConsoleLog (''Speaking message: '' @ centered_announcement),
                   Focus ''take-and-download'']\<rparr>"
  unfolding after_centered_def by (simp add: eval_defs)

lemma after_left_eq:
  "after_left =
    after_centered
      \<lparr>lastAnnouncedStatus := ''Move right.'', lastAnnouncementTime := 1000500,
       currentFaceGuidance := Some ''Move right.'',
       faceStatus := Some \<lparr>textContent =
                             ''Face position: Not centered - Please center your face'' @ '' ''
                               @ cross_mark,
                           color = ''red''\<rparr>,
       effects := effects after_centered @
                  [StrokePath [(0, 140), (200, 140), (200, 340), (0, 340)] True,
                   SynthSpeak (guidance_utterance ''Move right.''),
                   ConsoleLog ''Speaking message: Move right.'']\<rparr>"
  unfolding after_left_def after_centered_eq by (simp add: eval_defs)

lemma two_faces_hyps:
  "\<forall>fc\<in>set [left_face, centered_face]. box fc \<noteq> None"
  "faceStatus (initial_app 640 480 0 True True False) \<noteq> None"
  "True \<longrightarrow> (\<forall>fc\<in>set [left_face, centered_face].
              NUM_KEYPOINTS demo_params \<le> length (keypoints fc))"
  by (simp_all add: left_face_def centered_face_def demo_params_def initial_app_def)

lemma two_faces_values:
  "announcement_view
     (announce_faces (speech_env True 1000000) 640 480 [left_face, centered_face]
        (initial_app 640 480 0 True True False)) =
   (centered_announcement, 1000000,
    [SynthSpeak (guidance_utterance ''Move right.''), SynthCancel,
     SynthSpeak (guidance_utterance centered_announcement)])"
  "getFacePositionGuidance (Some centered_face) 640 480 =
     ''Almost centered. Make small adjustments.''"
  "isFaceCentered centered_face 640 480 = Inr True"
  "canvasWidth (initial_app 640 480 0 True True False) = 640"
  "canvasHeight (initial_app 640 480 0 True True False) = 480"
  by (simp_all add: announcement_view_def face_announcement_def eval_defs)

lemma after_two_faces_view:
  "statusIncludesCentered after_two_faces"
  "filter is_synth (effects after_two_faces) =
     [SynthSpeak (guidance_utterance ''Move right.''), SynthCancel,
      SynthSpeak (guidance_utterance centered_announcement)]"
  "currentFaceGuidance after_two_faces = Some ''Almost centered. Make small adjustments.''"
  using forEach_boxed [OF two_faces_hyps, of "speech_env True 1000000"] two_faces_values
  by (simp_all add: after_two_faces_def drawResults_def announcement_view_def)

text \<open>
  C8 as stated fails. After a centered frame, a frame with the face at the left edge is
  announced without cancelling the speech in progress, where a call with interrupt set
  would cancel it; the guidance is composed and cached for a centered face too; of two
  faces in one frame both are announced and the second one decides the status; and a frame
  drawn with bounding boxes off announces and caches nothing.
\<close>

theorem announcement_rule_counterexample:
  "statusIncludesCentered after_centered \<and>
   \<not> statusIncludesCentered after_left \<and>
   filter is_synth (effects after_left) =
     filter is_synth (effects after_centered) @ [SynthSpeak (guidance_utterance ''Move right.'')] \<and>
   filter is_synth (effects (speakMessage (speech_env True 1000500) ''Move right.'' True
                               after_centered)) =
     filter is_synth (effects after_centered) @
       [SynthCancel, SynthSpeak (guidance_utterance ''Move right.'')] \<and>
   currentFaceGuidance after_centered = Some ''Almost centered. Make small adjustments.'' \<and>
   statusIncludesCentered after_two_faces \<and>
   filter is_synth (effects after_two_faces) =
     [SynthSpeak (guidance_utterance ''Move right.''), SynthCancel,
      SynthSpeak (guidance_utterance centered_announcement)] \<and>
   effects after_unboxed = [] \<and> currentFaceGuidance after_unboxed = None"
proof (intro conjI)
  show "statusIncludesCentered after_centered"
    using centered_text by (simp add: after_centered_eq statusIncludesCentered_def)
  show "\<not> statusIncludesCentered after_left"
    using not_centered_text by (simp add: after_left_eq statusIncludesCentered_def)
  show "filter is_synth (effects after_left) =
     filter is_synth (effects after_centered) @ [SynthSpeak (guidance_utterance ''Move right.'')]"
    by (simp add: after_left_eq)
  show "filter is_synth (effects (speakMessage (speech_env True 1000500) ''Move right.'' True
                               after_centered)) =
     filter is_synth (effects after_centered) @
       [SynthCancel, SynthSpeak (guidance_utterance ''Move right.'')]"
    by (simp add: after_centered_eq speakMessage_def speech_env_def emit_def Let_def
          new_utterance_def guidance_utterance_def centered_announcement_def initial_app_def)
  show "currentFaceGuidance after_centered = Some ''Almost centered. Make small adjustments.''"
    by (simp add: after_centered_eq)
  show "statusIncludesCentered after_two_faces"
    by (rule after_two_faces_view)
  show "filter is_synth (effects after_two_faces) =
     [SynthSpeak (guidance_utterance ''Move right.''), SynthCancel,
      SynthSpeak (guidance_utterance centered_announcement)]"
    by (rule after_two_faces_view)
  show "effects after_unboxed = []"
    by (simp add: after_unboxed_def drawResults_def drawFace_def initial_app_def)
  show "currentFaceGuidance after_unboxed = None"
    by (simp add: after_unboxed_def drawResults_def drawFace_def initial_app_def)
qed

theorem drawResults_announces_every_face_witness:
  "[left_face, centered_face] \<noteq> [] \<and>
   box left_face \<noteq> None \<and> box centered_face \<noteq> None \<and>
   faceStatus (initial_app 640 480 0 True True False) \<noteq> None \<and>
   NUM_KEYPOINTS demo_params \<le> length (keypoints left_face) \<and>
   NUM_KEYPOINTS demo_params \<le> length (keypoints centered_face) \<and>
   fst (drawResults demo_params (speech_env True 1000000) [left_face, centered_face] True True
          (initial_app 640 480 0 True True False)) = Normal \<and>
   announcement_view after_two_faces =
     (centered_announcement, 1000000,
      [SynthSpeak (guidance_utterance ''Move right.''), SynthCancel,
       SynthSpeak (guidance_utterance centered_announcement)]) \<and>
   currentFaceGuidance after_two_faces = Some ''Almost centered. Make small adjustments.'' \<and>
   statusIncludesCentered after_two_faces"
proof -
  have h1: "[left_face, centered_face] \<noteq> []" by simp
  have h2: "\<forall>fc\<in>set [left_face, centered_face]. box fc \<noteq> None"
    by (simp add: left_face_def centered_face_def)
  have h3: "faceStatus (initial_app 640 480 0 True True False) \<noteq> None"
    by (simp add: initial_app_def)
  have h4: "True \<longrightarrow> (\<forall>fc\<in>set [left_face, centered_face].
              NUM_KEYPOINTS demo_params \<le> length (keypoints fc))"
    by (simp add: left_face_def centered_face_def demo_params_def)
  show ?thesis
    using drawResults_announces_every_face [OF h1 h2 h3 h4, of "speech_env True 1000000"]
      h2 h3 h4 two_faces_values
    by (simp add: after_two_faces_def)
qed

subsection \<open>The render loop\<close>

lemma endEstimateFaceStats_frame [simp]:
  "faceStatus (snd (endEstimateFaceStats e s)) = faceStatus s"
  "currentFaceGuidance (snd (endEstimateFaceStats e s)) = currentFaceGuidance s"
  "lastAnnouncedStatus (snd (endEstimateFaceStats e s)) = lastAnnouncedStatus s"
  "lastAnnouncementTime (snd (endEstimateFaceStats e s)) = lastAnnouncementTime s"
  "detector (snd (endEstimateFaceStats e s)) = detector s"
  by (simp_all add: endEstimateFaceStats_def Let_def emit_def)

lemma drawResults_no_faces:
  "drawResults P e [] bb kp s =
     (Normal,
      case faceStatus s of
        None \<Rightarrow> s
      | Some el \<Rightarrow>
          s\<lparr>faceStatus := Some (el\<lparr>textContent := ''Face position: No face detected'',
                                   color := ''orange''\<rparr>)\<rparr>)"
  by (simp add: drawResults_def)

lemma endEstimateFaceStats_frameD:
  "endEstimateFaceStats e s = (c, s') \<Longrightarrow> faceStatus s' = faceStatus s"
  using endEstimateFaceStats_frame(1) [of e s] by simp

lemma renderResult_no_faces:
  "inference e = Returns [] \<Longrightarrow> faceStatus (snd (renderResult P e s)) = faceStatus s"
  by (auto simp: renderResult_def camera_drawCtx_def beginEstimateFaceStats_def Let_def
        emit_def split: option.splits prod.splits completion.splits
        dest!: endEstimateFaceStats_frameD)

lemma renderResult_throws:
  assumes "detector s = Some d" and "inference e = Throws err"
    and "\<not> (readyState e < 2 \<and> \<not> loadeddataFires e)"
  shows "detector (snd (renderResult P e s)) = None"
    and "faceStatus (snd (renderResult P e s)) = faceStatus s"
    and "take 3 (drop (length (effects s)) (effects (snd (renderResult P e s)))) =
           [EstimateFaces d, Dispose d, AlertError err]"
  using assms
  by (simp_all add: renderResult_def camera_drawCtx_def beginEstimateFaceStats_def Let_def
        endEstimateFaceStats_def emit_def split: prod.splits completion.splits)

lemma renderResult_null_detector:
  assumes "detector s = None" and "\<not> (readyState e < 2 \<and> \<not> loadeddataFires e)"
  shows "renderResult P e s = (Normal, emit DrawCtx s)"
  using assms by (simp add: renderResult_def camera_drawCtx_def)

lemma checkGuiUpdate_idle:
  assumes "\<not> isTargetFPSChanged s" "\<not> isSizeOptionChanged s" "\<not> isModelChanged s"
    "\<not> isFlagChanged s" "\<not> isBackendChanged s"
  shows "checkGuiUpdate e s = (Normal, s)"
  using assms by (simp add: checkGuiUpdate_def)

lemma renderPrediction_null_detector:
  assumes "detector s = None" and "\<not> (readyState e < 2 \<and> \<not> loadeddataFires e)"
    and "\<not> isTargetFPSChanged s" "\<not> isSizeOptionChanged s" "\<not> isModelChanged s"
    "\<not> isFlagChanged s" "\<not> isBackendChanged s"
  shows "renderPrediction P e s =
           (Normal, (emit RequestAnimationFrame (emit DrawCtx s))\<lparr>rafScheduled := True\<rparr>)"
  using assms
  by (simp add: renderPrediction_def checkGuiUpdate_idle renderResult_null_detector)

lemma renderPrediction_throws_with_panel:
  assumes "detector s = Some d" and "inference e = Throws err"
    and "\<not> (readyState e < 2 \<and> \<not> loadeddataFires e)"
    and "\<not> isTargetFPSChanged s" "\<not> isSizeOptionChanged s" "\<not> isModelChanged s"
    "\<not> isFlagChanged s" "\<not> isBackendChanged s"
    and "statsPanel s \<or> perfNowEnd e - lastPanelUpdate s < 1000"
  shows "fst (renderPrediction P e s) = Normal"
    and "rafScheduled (snd (renderPrediction P e s))"
    and "detector (snd (renderPrediction P e s)) = None"
  using assms
  by (auto simp: renderPrediction_def checkGuiUpdate_idle renderResult_def camera_drawCtx_def
        beginEstimateFaceStats_def Let_def endEstimateFaceStats_def emit_def)

lemmas weak_congs = prod.case_cong_weak completion.case_cong_weak option.case_cong_weak
  inference_outcome.case_cong_weak sum.case_cong_weak

lemmas render_defs = renderResult_def renderPrediction_def checkGuiUpdate_def
  camera_drawCtx_def camera_drawResults_def beginEstimateFaceStats_def
  endEstimateFaceStats_def demo_platform_def idle_synth_def

lemma centered_render_status:
  "fst centered_render = Normal"
  "faceStatus (snd centered_render) =
     Some \<lparr>textContent = ''Face position: Centered'' @ '' '' @ check_mark, color = ''green''\<rparr>"
  "photoCanvas (snd centered_render) = Some \<lparr>pcWidth = 300, pcHeight = 150, content = Blank\<rparr>"
  "capturedPhoto (snd centered_render) = Some \<lparr>src = None, display = ''none''\<rparr>"
  "downloadPhotoButton (snd centered_render) = Some \<lparr>disabled = True\<rparr>"
  unfolding centered_render_def
  by (simp_all add: render_defs eval_defs cong: weak_congs)

lemma empty_render_status:
  "fst empty_render = Normal"
  "faceStatus (snd empty_render) = faceStatus (snd centered_render)"
  "photoCanvas (snd empty_render) = photoCanvas (snd centered_render)"
  "capturedPhoto (snd empty_render) = capturedPhoto (snd centered_render)"
  "downloadPhotoButton (snd empty_render) = downloadPhotoButton (snd centered_render)"
  unfolding empty_render_def centered_render_def
  by (simp_all add: render_defs eval_defs cong: weak_congs)

text \<open>
  C7 does not hold of the render loop. \<open>drawResults\<close> writes the no-face text when it is
  given an empty list, and speaks nothing then; but \<open>renderResult\<close> calls it only for a
  non-empty list. In the sample run the frame without faces completes and leaves the
  status text of the preceding centered frame in place, and a capture is then accepted.
\<close>

theorem zero_faces_frame_keeps_Centered:
  "fst centered_render = Normal \<and> fst empty_render = Normal \<and>
   faceStatus (snd empty_render) =
     Some \<lparr>textContent = ''Face position: Centered'' @ '' '' @ check_mark, color = ''green''\<rparr> \<and>
   statusIncludesCentered (snd empty_render) \<and>
   photoCanvas (snd (capturePhoto (demo_platform (Some idle_synth) 1000200 (Returns []) 5200)
                       (snd empty_render))) =
     Some \<lparr>pcWidth = 640, pcHeight = 480, content = MirroredFrame 7\<rparr>"
proof -
  have st: "statusIncludesCentered (snd empty_render)"
    using centered_text
    by (simp add: statusIncludesCentered_def empty_render_status centered_render_status)
  have cap: "photoCanvas (snd (capturePhoto (demo_platform (Some idle_synth) 1000200 (Returns []) 5200)
                       (snd empty_render))) =
     Some \<lparr>pcWidth = 640, pcHeight = 480, content = MirroredFrame 7\<rparr>"
    using st
    by (simp add: capturePhoto_def empty_render_status centered_render_status Let_def
          playShutterSound_def demo_platform_def emit_def)
  show ?thesis
    using st cap by (simp add: empty_render_status centered_render_status)
qed

text \<open>
  C9 does not hold in production mode. When the inference throws, the detector is disposed
  and set to null and the error is shown; frames with a null detector attempt no inference,
  leave the status alone and request the next frame (the lemmas above). But on the
  throwing frame itself \<open>endEstimateFaceStats\<close> runs after the catch, and without the
  statistics panel it throws once a panel update is due: \<open>renderPrediction\<close> then requests
  no further frame, and the loop stops.
\<close>

theorem inference_fault_stops_loop_in_production:
  "fst production_fault = Throw (TypeError ''stats is undefined'') \<and>
   detector (snd production_fault) = None \<and>
   \<not> rafScheduled (snd production_fault) \<and>
   effects (snd production_fault) =
     [EstimateFaces 0, Dispose 0, AlertError (Error ''unexpected model output'')] \<and>
   frames demo_params
     [demo_platform (Some idle_synth) 1000100 (Returns [centered_face]) 5100,
      demo_platform (Some idle_synth) 1000200 (Returns [centered_face]) 5200]
     (snd production_fault) = snd production_fault"
proof -
  have a: "fst production_fault = Throw (TypeError ''stats is undefined'')"
    "detector (snd production_fault) = None"
    "\<not> rafScheduled (snd production_fault)"
    "effects (snd production_fault) =
       [EstimateFaces 0, Dispose 0, AlertError (Error ''unexpected model output'')]"
    unfolding production_fault_def
    by (simp_all add: render_defs initial_app_def emit_def Let_def cong: weak_congs)
  show ?thesis using a by simp
qed

subsection \<open>Capture\<close>

lemma warnNotCentered_calls:
  "warnNotCentered e s = s\<lparr>effects := effects s @ corrective_calls e\<rparr>"
  by (simp add: warnNotCentered_def corrective_calls_def emit_def Let_def split: option.splits)

lemma capturePhoto_changes:
  "photoCanvas (snd (capturePhoto e s)) \<noteq> photoCanvas s \<or>
   capturedPhoto (snd (capturePhoto e s)) \<noteq> capturedPhoto s \<or>
   downloadPhotoButton (snd (capturePhoto e s)) \<noteq> downloadPhotoButton s \<or>
   ShutterSound \<in> set (effects (snd (capturePhoto e s))) - set (effects s)
   \<Longrightarrow> statusIncludesCentered s"
  by (rule ccontr) (auto simp: capturePhoto_def warnNotCentered_calls corrective_calls_def
        split: option.splits)

lemma takeAndDownloadPhoto_changes:
  "photoCanvas (snd (takeAndDownloadPhoto e s)) \<noteq> photoCanvas s \<or>
   capturedPhoto (snd (takeAndDownloadPhoto e s)) \<noteq> capturedPhoto s \<or>
   downloadPhotoButton (snd (takeAndDownloadPhoto e s)) \<noteq> downloadPhotoButton s \<or>
   ShutterSound \<in> set (effects (snd (takeAndDownloadPhoto e s))) - set (effects s)
   \<Longrightarrow> statusIncludesCentered s"
  by (rule ccontr) (auto simp: takeAndDownloadPhoto_def warnNotCentered_calls corrective_calls_def
        split: option.splits)

text \<open>
  C5. For every call of \<open>capturePhoto\<close> or \<open>takeAndDownloadPhoto\<close> while the status text does
  not contain \<open>Centered\<close>: the call completes and changes nothing but the log of calls, to
  which it adds the corrective message (cancel and speak, or an alert without speech) and
  no shutter sound; so the photo canvas, the captured-photo image and the download button
  stay as they were and nothing is saved. Conversely a capture that changes the photo
  canvas, the image or the download button, or plays the shutter sound, started from a
  status text that contains \<open>Centered\<close>.
\<close>

theorem capture_refused_unless_Centered:
  "(\<not> statusIncludesCentered s \<longrightarrow>
      capturePhoto e s = (Normal, s\<lparr>effects := effects s @ corrective_calls e\<rparr>) \<and>
      takeAndDownloadPhoto e s = (Normal, s\<lparr>effects := effects s @ corrective_calls e\<rparr>) \<and>
      corrective_calls e \<noteq> [] \<and> ShutterSound \<notin> set (corrective_calls e)) \<and>
   (photoCanvas (snd (capturePhoto e s)) \<noteq> photoCanvas s \<or>
    capturedPhoto (snd (capturePhoto e s)) \<noteq> capturedPhoto s \<or>
    downloadPhotoButton (snd (capturePhoto e s)) \<noteq> downloadPhotoButton s \<or>
    ShutterSound \<in> set (effects (snd (capturePhoto e s))) - set (effects s)
      \<longrightarrow> statusIncludesCentered s) \<and>
   (photoCanvas (snd (takeAndDownloadPhoto e s)) \<noteq> photoCanvas s \<or>
    capturedPhoto (snd (takeAndDownloadPhoto e s)) \<noteq> capturedPhoto s \<or>
    downloadPhotoButton (snd (takeAndDownloadPhoto e s)) \<noteq> downloadPhotoButton s \<or>
    ShutterSound \<in> set (effects (snd (takeAndDownloadPhoto e s))) - set (effects s)
      \<longrightarrow> statusIncludesCentered s)"
proof (intro conjI impI)
  assume n: "\<not> statusIncludesCentered s"
  show "capturePhoto e s = (Normal, s\<lparr>effects := effects s @ corrective_calls e\<rparr>)"
    using n by (simp add: capturePhoto_def warnNotCentered_calls)
  show "takeAndDownloadPhoto e s = (Normal, s\<lparr>effects := effects s @ corrective_calls e\<rparr>)"
    using n by (simp add: takeAndDownloadPhoto_def warnNotCentered_calls)
  show "corrective_calls e \<noteq> []"
    by (simp add: corrective_calls_def split: option.splits)
  show "ShutterSound \<notin> set (corrective_calls e)"
    by (simp add: corrective_calls_def split: option.splits)
next
  assume "photoCanvas (snd (capturePhoto e s)) \<noteq> photoCanvas s \<or>
    capturedPhoto (snd (capturePhoto e s)) \<noteq> capturedPhoto s \<or>
    downloadPhotoButton (snd (capturePhoto e s)) \<noteq> downloadPhotoButton s \<or>
    ShutterSound \<in> set (effects (snd (capturePhoto e s))) - set (effects s)"
  then show "statusIncludesCentered s" by (rule capturePhoto_changes)
next
  assume "photoCanvas (snd (takeAndDownloadPhoto e s)) \<noteq> photoCanvas s \<or>
    capturedPhoto (snd (takeAndDownloadPhoto e s)) \<noteq> capturedPhoto s \<or>
    downloadPhotoButton (snd (takeAndDownloadPhoto e s)) \<noteq> downloadPhotoButton s \<or>
    ShutterSound \<in> set (effects (snd (takeAndDownloadPhoto e s))) - set (effects s)"
  then show "statusIncludesCentered s" by (rule takeAndDownloadPhoto_changes)
qed

theorem capture_refused_unless_Centered_witness:
  "\<not> statusIncludesCentered (initial_app 640 480 0 True True False) \<and>
   capturePhoto (demo_platform (Some idle_synth) 1000000 Pending 5000)
       (initial_app 640 480 0 True True False) =
     (Normal,
      (initial_app 640 480 0 True True False)
        \<lparr>effects := [SynthCancel,
                      SynthSpeak (index_utterance
                        ''Please center your face before taking a photo. Use the Announce Position button for guidance.'')]\<rparr>) \<and>
   takeAndDownloadPhoto (demo_platform None 1000000 Pending 5000)
       (initial_app 640 480 0 True True False) =
     (Normal,
      (initial_app 640 480 0 True True False)
        \<lparr>effects := [Alert ''Please center your face before taking a photo.'']\<rparr>) \<and>
   photoCanvas (snd (capturePhoto (demo_platform (Some idle_synth) 1000200 Pending 5200)
                       (snd centered_render))) \<noteq> photoCanvas (snd centered_render) \<and>
   photoCanvas (snd (takeAndDownloadPhoto (demo_platform (Some idle_synth) 1000200 Pending 5200)
                       (snd centered_render))) \<noteq> photoCanvas (snd centered_render) \<and>
   statusIncludesCentered (snd centered_render)"
proof -
  let ?s0 = "initial_app 640 480 0 True True False"
  let ?e = "demo_platform (Some idle_synth) 1000200 Pending 5200"
  have n: "\<not> statusIncludesCentered ?s0"
    using waiting_text by (simp add: initial_app_def statusIncludesCentered_def)
  have c0: "corrective_calls (demo_platform (Some idle_synth) 1000000 Pending 5000) =
              [SynthCancel,
               SynthSpeak (index_utterance
                 ''Please center your face before taking a photo. Use the Announce Position button for guidance.'')]"
    "corrective_calls (demo_platform None 1000000 Pending 5000) =
              [Alert ''Please center your face before taking a photo.'']"
    by (simp_all add: corrective_calls_def demo_platform_def)
  have e0: "effects ?s0 = []" by (simp add: initial_app_def)
  have st: "statusIncludesCentered (snd centered_render)"
    using centered_text by (simp add: statusIncludesCentered_def centered_render_status)
  have p1: "photoCanvas (snd (capturePhoto ?e (snd centered_render))) \<noteq>
              photoCanvas (snd centered_render)"
    using st
    by (simp add: capturePhoto_def centered_render_status Let_def playShutterSound_def
          demo_platform_def emit_def)
  have p2: "photoCanvas (snd (takeAndDownloadPhoto ?e (snd centered_render))) \<noteq>
              photoCanvas (snd centered_render)"
    using st
    by (simp add: takeAndDownloadPhoto_def centered_render_status Let_def playShutterSound_def
          demo_platform_def emit_def)
  let ?e1 = "demo_platform (Some idle_synth) 1000000 Pending 5000"
  let ?e2 = "demo_platform None 1000000 Pending 5000"
  have a: "capturePhoto ?e1 ?s0 = (Normal, ?s0\<lparr>effects := effects ?s0 @ corrective_calls ?e1\<rparr>)"
    using capture_refused_unless_Centered [of ?s0 ?e1] n by blast
  have b: "takeAndDownloadPhoto ?e2 ?s0 =
             (Normal, ?s0\<lparr>effects := effects ?s0 @ corrective_calls ?e2\<rparr>)"
    using capture_refused_unless_Centered [of ?s0 ?e2] n by blast
  have c: "statusIncludesCentered (snd centered_render)"
    using capture_refused_unless_Centered [of "snd centered_render" ?e] p1 by blast
  show ?thesis
    using n a b p1 p2 c unfolding c0 e0 append_Nil by (intro conjI)
qed

end
